theory Spec2Isabelle
  imports Main
begin

section \<open>The document model of \<^verbatim>\<open>src/app.py\<close>\<close>

text \<open>
  The application is a set of read-only Flask views over five MongoDB collections that
  are declared as mongoengine \<^verbatim>\<open>Document\<close> classes. Each class becomes a record; the
  fields keep their names behind a short prefix for the class (record fields share one
  name space): \<open>st_\<close> SubTopic, \<open>sy_\<close> UPSCSyllabus, \<open>mu_\<close> MicroUnit, \<open>nt_\<close> MicroUnitNote,
  \<open>op_\<close> MCQOptionDoc, \<open>q_\<close> IndividualMCQDoc, \<open>mq_\<close> MicroUnitMCQ. Every document has the
  primary key \<^verbatim>\<open>id\<close> that mongoengine adds.

  An \<^verbatim>\<open>ObjectId\<close> is represented by its canonical text, which is what \<^verbatim>\<open>str(u.id)\<close>
  returns; only equality of ids is ever used. A \<^verbatim>\<open>ReferenceField\<close> stores the id of the
  document it points to. A \<^verbatim>\<open>StringField()\<close> or \<^verbatim>\<open>IntField()\<close> with neither
  \<^verbatim>\<open>required\<close> nor \<^verbatim>\<open>default\<close> may be absent (\<open>None\<close>). Python integers are unbounded.
\<close>

type_synonym oid = string

record SubTopic =
  st_id :: oid
  st_name :: string
  st_subject :: string
  st_v1_generated :: bool
  st_v2_cleaned :: bool
  st_v3_verified :: bool
  st_v4_finalized :: bool

record UPSCSyllabus =
  sy_id :: oid
  sy_exam :: string
  sy_stage :: string
  sy_paper :: string
  sy_subject :: string
  sy_subtopics :: "oid list"
  sy_v1 :: bool
  sy_v2 :: bool
  sy_v3 :: bool
  sy_v4 :: bool

record MicroUnit =
  mu_id :: oid
  mu_name :: string
  mu_subject :: string
  mu_subtopic :: oid
  mu_order :: int
  mu_v5_generated :: bool
  mu_v6_verified :: bool
  mu_v6_finalized :: bool

record MicroUnitNote =
  nt_id :: oid
  nt_micro_unit :: oid
  nt_content :: string
  nt_word_count :: "int option"
  nt_image_required :: bool
  nt_image_reasons :: "string list"
  nt_v1_generated :: bool
  nt_v1_verified :: bool

record MCQOptionDoc =
  op_option :: string
  op_text :: string

record IndividualMCQDoc =
  q_question_number :: int
  q_question_text :: string
  q_options :: "MCQOptionDoc list"
  q_correct_answer :: string
  q_explanation :: string
  q_additional_notes :: "string option"
  q_image_required :: bool
  q_image_reason :: "string option"

record MicroUnitMCQ =
  mq_id :: oid
  mq_micro_unit :: oid
  mq_mcq_count :: int
  mq_mcqs :: "IndividualMCQDoc list"
  mq_remarks :: "string option"
  mq_commentary :: "string option"
  mq_content :: string
  mq_image_required :: bool
  mq_image_reasons :: "string list"
  mq_v1_generated :: bool
  mq_v1_verified :: bool

text \<open>
  The database: one list of documents per collection, in the order in which the store
  returns them when no sort is asked for. The field names are the collection names of
  the classes' \<^verbatim>\<open>meta\<close>.
\<close>

record store =
  c_subtopics :: "SubTopic list"
  c_upsc_syllabus :: "UPSCSyllabus list"
  c_micro_units :: "MicroUnit list"
  c_micro_unit_notes :: "MicroUnitNote list"
  c_micro_unit_mcqs :: "MicroUnitMCQ list"



section \<open>What a view produces\<close>

text \<open>
  A view either returns \<^verbatim>\<open>jsonify(...)\<close> or an exception leaves it: the file has no
  \<^verbatim>\<open>try\<close>. The exceptions that the calls of the file can raise are mongoengine's
  \<^verbatim>\<open>DoesNotExist\<close> and \<^verbatim>\<open>MultipleObjectsReturned\<close> (from \<^verbatim>\<open>objects.get\<close> and from
  dereferencing), bson's \<^verbatim>\<open>InvalidId\<close> (from \<^verbatim>\<open>ObjectId(...)\<close>) and mongoengine's
  \<^verbatim>\<open>ValidationError\<close> (a query value that is no id). The calls to \<^verbatim>\<open>print\<close> only write
  to the server's standard output and are left out.
\<close>

datatype exn = DoesNotExist | MultipleObjectsReturned | InvalidId | ValidationError

datatype json =
    JNull
  | JBool bool
  | JInt int
  | JStr string
  | JList "json list"
  | JObj "(string \<times> json) list"

definition json_opt_str :: "string option \<Rightarrow> json" where
  "json_opt_str x = (case x of None \<Rightarrow> JNull | Some s \<Rightarrow> JStr s)"

text \<open>
  The application object is \<^verbatim>\<open>Flask(__name__)\<close> and the file registers no error handler.
  Flask answers a returned \<^verbatim>\<open>jsonify(...)\<close> with status 200, and an exception that leaves
  a view with 500 Internal Server Error, unless the exception is one of werkzeug's HTTP
  exceptions (what \<^verbatim>\<open>abort\<close> raises), which none of the four above is.
\<close>

definition http_status :: "exn + json \<Rightarrow> nat" where
  "http_status r = (case r of Inl e \<Rightarrow> 500 | Inr j \<Rightarrow> 200)"

section \<open>The store's queries\<close>

text \<open>
  Every view's value comes with the list of the queries it sends to the store, one entry
  for each query set that is evaluated (mongoengine evaluates a query set once and then
  iterates its cache), each \<^verbatim>\<open>get\<close>, each \<^verbatim>\<open>distinct\<close> and each dereferencing fetch.
  Query sets are lazy, so the entries are in the order of the source's expressions, which
  need not be the order on the wire.
\<close>

datatype collection =
  Subtopics | Upsc_syllabus | Micro_units | Micro_unit_notes | Micro_unit_mcqs

datatype query =
    Find collection
  | Get collection
  | Distinct collection
  | Distinct_in collection "oid list"
  | In_bulk collection "oid list"
  | Dereference collection oid

fun on_collection :: "collection \<Rightarrow> query \<Rightarrow> bool" where
  "on_collection c (Find c') = (c = c')"
| "on_collection c (Get c') = (c = c')"
| "on_collection c (Distinct c') = (c = c')"
| "on_collection c (Distinct_in c' ids) = (c = c')"
| "on_collection c (In_bulk c' ids) = (c = c')"
| "on_collection c (Dereference c' i) = (c = c')"

text \<open>
  \<^verbatim>\<open>objects.get(...)\<close>: the one matching document; \<^verbatim>\<open>DoesNotExist\<close> when there is none,
  \<^verbatim>\<open>MultipleObjectsReturned\<close> when there are several.
\<close>

fun objects_get :: "'a list \<Rightarrow> exn + 'a" where
  "objects_get [] = Inl DoesNotExist"
| "objects_get [x] = Inr x"
| "objects_get (x # y # zs) = Inl MultipleObjectsReturned"

subsection \<open>\<^verbatim>\<open>distinct("micro_unit")\<close> and membership in the resulting set\<close>

text \<open>
  \<^verbatim>\<open>QuerySet.distinct\<close> asks the store for the distinct stored values of the field and
  then, the field being a \<^verbatim>\<open>ReferenceField\<close> and the query set dereferencing by default,
  replaces each id by the referenced document, fetched in bulk; an id with no document
  stays a \<^verbatim>\<open>DBRef\<close>. (mongoengine's own test \<^verbatim>\<open>test_distinct_handles_references\<close> checks
  \<^verbatim>\<open>Foo.objects.distinct("bar") == [bar]\<close>.) So the Python values that meet in the
  views' membership tests are ids, MicroUnit documents and DBRefs.
\<close>

datatype pyval = PyObjectId oid | PyMicroUnit MicroUnit | PyDBRef oid

text \<open>
  \<^verbatim>\<open>x in s\<close> for a Python set \<open>s\<close> finds an element with the hash of \<open>x\<close> that is equal
  to \<open>x\<close>.
  \<^item> \<^verbatim>\<open>Document.__hash__\<close> is \<^verbatim>\<open>hash(self.pk)\<close>, the hash of the id; a DBRef hashes the
    tuple of its collection, id, database and extra fields.
  \<^item> \<^verbatim>\<open>Document.__eq__(other)\<close> compares the ids when \<open>other\<close> is a document of the same
    class, compares collection and id when it is a DBRef, and is \<open>False\<close> for anything
    else, an ObjectId included.
  \<^item> \<^verbatim>\<open>ObjectId.__eq__\<close> and \<^verbatim>\<open>DBRef.__eq__\<close> compare with their own kind and return
    \<^verbatim>\<open>NotImplemented\<close> otherwise, which hands the comparison to the other operand.
\<close>

datatype pyhash = Hash_of_id oid | Hash_of_dbref oid

fun py_hash :: "pyval \<Rightarrow> pyhash" where
  "py_hash (PyObjectId i) = Hash_of_id i"
| "py_hash (PyMicroUnit m) = Hash_of_id (mu_id m)"
| "py_hash (PyDBRef i) = Hash_of_dbref i"

fun py_eq :: "pyval \<Rightarrow> pyval \<Rightarrow> bool" where
  "py_eq (PyMicroUnit a) (PyMicroUnit b) = (mu_id a = mu_id b)"
| "py_eq (PyMicroUnit a) (PyDBRef j) = (mu_id a = j)"
| "py_eq (PyMicroUnit a) (PyObjectId j) = False"
| "py_eq (PyObjectId i) (PyObjectId j) = (i = j)"
| "py_eq (PyObjectId i) (PyMicroUnit b) = False"
| "py_eq (PyObjectId i) (PyDBRef j) = False"
| "py_eq (PyDBRef i) (PyDBRef j) = (i = j)"
| "py_eq (PyDBRef i) (PyMicroUnit b) = (mu_id b = i)"
| "py_eq (PyDBRef i) (PyObjectId j) = False"

definition py_in :: "pyval \<Rightarrow> pyval list \<Rightarrow> bool" where
  "py_in x s \<longleftrightarrow> (\<exists>e \<in> set s. py_hash e = py_hash x \<and> py_eq e x)"

definition dereference :: "store \<Rightarrow> oid \<Rightarrow> pyval" where
  "dereference db i =
     (case find (\<lambda>m. mu_id m = i) (c_micro_units db) of
        Some m \<Rightarrow> PyMicroUnit m
      | None \<Rightarrow> PyDBRef i)"

text \<open>
  \<^verbatim>\<open>set(MicroUnitNote.objects(micro_unit__in=units).distinct("micro_unit"))\<close>, where
  \<open>ids\<close> are the ids of \<open>units\<close>: one \<^verbatim>\<open>distinct\<close> command with the membership filter over
  all of \<open>ids\<close>, then one bulk fetch of the referenced micro-units when there is any.
\<close>

definition noted_micro_units :: "store \<Rightarrow> oid list \<Rightarrow> query list \<times> pyval list" where
  "noted_micro_units db ids =
     (let raw_values =
            remdups (map nt_micro_unit
              (filter (\<lambda>n. nt_micro_unit n \<in> set ids) (c_micro_unit_notes db)))
      in (Distinct_in Micro_unit_notes ids #
            (if raw_values = [] then [] else [In_bulk Micro_units raw_values]),
          map (dereference db) raw_values))"

section \<open>The views\<close>

subsection \<open>\<^verbatim>\<open>/subjects\<close> and \<^verbatim>\<open>/syllabus/<subject>\<close>\<close>

definition list_subjects :: "store \<Rightarrow> query list \<times> (exn + json)" where
  "list_subjects db =
     (let subjects = remdups (map sy_subject (filter sy_v4 (c_upsc_syllabus db)))
      in ([Distinct Upsc_syllabus], Inr (JList (map JStr subjects))))"


subsection \<open>\<^verbatim>\<open>/subtopics/<subject>\<close>\<close>

text \<open>
  The loop over \<open>micro_units\<close> that fills the dictionary \<^verbatim>\<open>subtopic_has_notes\<close>. The test
  is \<^verbatim>\<open>mu.id in noted_units\<close>: an id is looked up in the set. \<^verbatim>\<open>mu.subtopic\<close> dereferences
  the stored reference with one fetch, and raises \<^verbatim>\<open>DoesNotExist\<close> when the SubTopic is
  not there.
\<close>

fun mark_subtopics ::
  "store \<Rightarrow> pyval list \<Rightarrow> MicroUnit list \<Rightarrow> (oid \<rightharpoonup> bool) \<Rightarrow> query list \<times> (exn + (oid \<rightharpoonup> bool))"
where
  "mark_subtopics db noted_units [] subtopic_has_notes = ([], Inr subtopic_has_notes)"
| "mark_subtopics db noted_units (mu # mus) subtopic_has_notes =
     (if py_in (PyObjectId (mu_id mu)) noted_units then
        (case find (\<lambda>s. st_id s = mu_subtopic mu) (c_subtopics db) of
           None \<Rightarrow> ([Dereference Subtopics (mu_subtopic mu)], Inl DoesNotExist)
         | Some s \<Rightarrow>
             (let (qs, r) = mark_subtopics db noted_units mus (subtopic_has_notes(st_id s \<mapsto> True))
              in (Dereference Subtopics (mu_subtopic mu) # qs, r)))
      else mark_subtopics db noted_units mus subtopic_has_notes)"

definition subtopic_json :: "(oid \<rightharpoonup> bool) \<Rightarrow> SubTopic \<Rightarrow> json" where
  "subtopic_json subtopic_has_notes s =
     JObj [(''name'', JStr (st_name s)),
           (''has_notes'',
              JBool (case subtopic_has_notes (st_id s) of None \<Rightarrow> False | Some b \<Rightarrow> b))]"

definition subtopics_by_subject :: "store \<Rightarrow> string \<Rightarrow> query list \<times> (exn + json)" where
  "subtopics_by_subject db subject =
     (let subtopics = filter (\<lambda>s. st_subject s = subject) (c_subtopics db);
          micro_units =
            filter (\<lambda>m. mu_subtopic m \<in> set (map st_id subtopics)) (c_micro_units db);
          (qs, noted_units) = noted_micro_units db (map mu_id micro_units);
          (qs', r) = mark_subtopics db noted_units micro_units Map.empty
      in ([Find Subtopics, Find Micro_units] @ qs @ qs',
          (case r of
             Inl e \<Rightarrow> Inl e
           | Inr subtopic_has_notes \<Rightarrow>
               Inr (JList (map (subtopic_json subtopic_has_notes) subtopics)))))"

subsection \<open>\<^verbatim>\<open>/micro-units/<subject>/<subtopic_name>\<close>\<close>

text \<open>
  \<^verbatim>\<open>order_by("order")\<close> sorts ascending on the stored \<^verbatim>\<open>order\<close>; the store promises no
  order among equal keys, and the model keeps the collection's order there. The test is
  \<^verbatim>\<open>u in notes_map\<close>: the document itself is looked up in the set.
\<close>

definition micro_unit_json :: "pyval list \<Rightarrow> MicroUnit \<Rightarrow> json" where
  "micro_unit_json notes_map u =
     JObj [(''id'', JStr (mu_id u)),
           (''name'', JStr (mu_name u)),
           (''order'', JInt (mu_order u)),
           (''has_notes'', JBool (py_in (PyMicroUnit u) notes_map))]"

definition micro_units_by_subtopic ::
  "store \<Rightarrow> string \<Rightarrow> string \<Rightarrow> query list \<times> (exn + json)"
where
  "micro_units_by_subtopic db subject subtopic_name =
     (case objects_get (filter (\<lambda>s. st_name s = subtopic_name \<and> st_subject s = subject \<and>
                                     st_v4_finalized s) (c_subtopics db)) of
        Inl e \<Rightarrow> ([Get Subtopics], Inl e)
      | Inr subtopic \<Rightarrow>
          (let units = sort_key mu_order
                 (filter (\<lambda>u. mu_subtopic u = st_id subtopic \<and> mu_v6_finalized u)
                    (c_micro_units db));
               (qs, notes_map) = noted_micro_units db (map mu_id units)
           in (Get Subtopics # Find Micro_units # qs,
               Inr (JList (map (micro_unit_json notes_map) units)))))"

subsection \<open>\<^verbatim>\<open>/notes/<micro_unit_id>\<close> and \<^verbatim>\<open>/mcqs/<micro_unit_id>\<close>\<close>

text \<open>
  \<^verbatim>\<open>ObjectId(s)\<close> of the bson library either builds the id that the text \<open>s\<close> denotes or
  raises \<^verbatim>\<open>InvalidId\<close>. The parser is a parameter of the two views: \<open>ObjectId s = None\<close>
  says that \<open>s\<close> cannot be parsed. \<^verbatim>\<open>notes_by_micro_unit\<close> calls it itself; in
  \<^verbatim>\<open>mcqs_by_micro_unit\<close> the text is the value of a query on a reference field, which
  mongoengine converts with the same parser and reports as \<^verbatim>\<open>ValidationError\<close>.
\<close>

definition notes_by_micro_unit ::
  "(string \<Rightarrow> oid option) \<Rightarrow> store \<Rightarrow> string \<Rightarrow> query list \<times> (exn + json)"
where
  "notes_by_micro_unit ObjectId db micro_unit_id =
     (case ObjectId micro_unit_id of
        None \<Rightarrow> ([], Inl InvalidId)
      | Some i \<Rightarrow>
          (case objects_get (filter (\<lambda>m. mu_id m = i) (c_micro_units db)) of
             Inl e \<Rightarrow> ([Get Micro_units], Inl e)
           | Inr micro_unit \<Rightarrow>
               (case objects_get (filter (\<lambda>n. nt_micro_unit n = mu_id micro_unit)
                                    (c_micro_unit_notes db)) of
                  Inl e \<Rightarrow> ([Get Micro_units, Get Micro_unit_notes], Inl e)
                | Inr note \<Rightarrow>
                    ([Get Micro_units, Get Micro_unit_notes],
                     Inr (JObj [(''micro_unit_id'', JStr micro_unit_id),
                                (''content'', JStr (nt_content note))])))))"

definition option_json :: "MCQOptionDoc \<Rightarrow> json" where
  "option_json o' = JObj [(''option'', JStr (op_option o')), (''text'', JStr (op_text o'))]"

definition question_json :: "IndividualMCQDoc \<Rightarrow> json" where
  "question_json q =
     JObj [(''question_number'', JInt (q_question_number q)),
           (''question_text'', JStr (q_question_text q)),
           (''options'', JList (map option_json (q_options q))),
           (''correct_answer'', JStr (q_correct_answer q)),
           (''explanation'', JStr (q_explanation q)),
           (''additional_notes'', json_opt_str (q_additional_notes q)),
           (''image_required'', JBool (q_image_required q)),
           (''image_reason'', json_opt_str (q_image_reason q))]"

definition mcqs_by_micro_unit ::
  "(string \<Rightarrow> oid option) \<Rightarrow> store \<Rightarrow> string \<Rightarrow> query list \<times> (exn + json)"
where
  "mcqs_by_micro_unit ObjectId db micro_unit_id =
     (case ObjectId micro_unit_id of
        None \<Rightarrow> ([], Inl ValidationError)
      | Some i \<Rightarrow>
          (case objects_get (filter (\<lambda>m. mq_micro_unit m = i) (c_micro_unit_mcqs db)) of
             Inl e \<Rightarrow> ([Get Micro_unit_mcqs], Inl e)
           | Inr mcq \<Rightarrow>
               ([Get Micro_unit_mcqs],
                Inr (JObj [(''mcq_count'', JInt (mq_mcq_count mcq)),
                           (''mcqs'', JList (map question_json (mq_mcqs mcq)))]))))"

section \<open>Example stores\<close>

text \<open>
  The store of the specification's scenario: subject History with a syllabus row, the
  finalized SubTopic Ancient India, its finalized micro-units Mauryas (order 2) and
  Guptas (order 1), stored in this order, and a note for Guptas only.
\<close>

definition ancient_india :: SubTopic where
  "ancient_india =
     \<lparr>st_id = ''5f0000000000000000000a01'', st_name = ''Ancient India'',
      st_subject = ''History'', st_v1_generated = True, st_v2_cleaned = True,
      st_v3_verified = True, st_v4_finalized = True\<rparr>"

definition mauryas :: MicroUnit where
  "mauryas =
     \<lparr>mu_id = ''5f0000000000000000000c01'', mu_name = ''Mauryas'', mu_subject = ''History'',
      mu_subtopic = ''5f0000000000000000000a01'', mu_order = 2, mu_v5_generated = True,
      mu_v6_verified = True, mu_v6_finalized = True\<rparr>"

definition guptas :: MicroUnit where
  "guptas =
     \<lparr>mu_id = ''5f0000000000000000000c02'', mu_name = ''Guptas'', mu_subject = ''History'',
      mu_subtopic = ''5f0000000000000000000a01'', mu_order = 1, mu_v5_generated = True,
      mu_v6_verified = True, mu_v6_finalized = True\<rparr>"

definition guptas_note :: MicroUnitNote where
  "guptas_note =
     \<lparr>nt_id = ''5f0000000000000000000d01'', nt_micro_unit = ''5f0000000000000000000c02'',
      nt_content = ''The Gupta empire'', nt_word_count = None, nt_image_required = False,
      nt_image_reasons = [], nt_v1_generated = True, nt_v1_verified = True\<rparr>"

definition history_db :: store where
  "history_db =
     \<lparr>c_subtopics = [ancient_india],
      c_upsc_syllabus =
        [\<lparr>sy_id = ''5f0000000000000000000b01'', sy_exam = ''UPSC Civil Services Examination'',
          sy_stage = ''Prelims'', sy_paper = ''GS1'', sy_subject = ''History'',
          sy_subtopics = [''5f0000000000000000000a01''], sy_v1 = True, sy_v2 = True,
          sy_v3 = True, sy_v4 = True\<rparr>],
      c_micro_units = [mauryas, guptas],
      c_micro_unit_notes = [guptas_note],
      c_micro_unit_mcqs = []\<rparr>"

text \<open>The same store before the SubTopic is finalized.\<close>

definition draft_db :: store where
  "draft_db = history_db\<lparr>c_subtopics := [ancient_india\<lparr>st_v4_finalized := False\<rparr>]\<rparr>"

text \<open>
  A set of questions whose micro-unit is not in the store, with one question and a
  stored \<^verbatim>\<open>mcq_count\<close> of 2.
\<close>

definition one_question :: IndividualMCQDoc where
  "one_question =
     \<lparr>q_question_number = 1, q_question_text = ''Who founded the Maurya empire?'',
      q_options = [\<lparr>op_option = ''A'', op_text = ''Chandragupta''\<rparr>,
                   \<lparr>op_option = ''B'', op_text = ''Ashoka''\<rparr>],
      q_correct_answer = ''A'', q_explanation = ''Chandragupta Maurya, about 321 BCE'',
      q_additional_notes = None, q_image_required = False, q_image_reason = None\<rparr>"

definition orphan_mcq :: MicroUnitMCQ where
  "orphan_mcq =
     \<lparr>mq_id = ''5f0000000000000000000e01'', mq_micro_unit = ''5f0000000000000000000c09'',
      mq_mcq_count = 2, mq_mcqs = [one_question], mq_remarks = None, mq_commentary = None,
      mq_content = ''Mauryan polity'', mq_image_required = False, mq_image_reasons = [],
      mq_v1_generated = True, mq_v1_verified = True\<rparr>"

text \<open>
  A store with dangling references: a micro-unit of a SubTopic that does not exist, a
  note and a set of questions of micro-units that do not exist.
\<close>

definition dangling_db :: store where
  "dangling_db =
     history_db
       \<lparr>c_micro_units :=
          [mauryas, guptas,
           \<lparr>mu_id = ''5f0000000000000000000c03'', mu_name = ''Cholas'', mu_subject = ''History'',
            mu_subtopic = ''5f0000000000000000000a07'', mu_order = 0, mu_v5_generated = True,
            mu_v6_verified = True, mu_v6_finalized = True\<rparr>],
        c_micro_unit_notes :=
          [guptas_note,
           \<lparr>nt_id = ''5f0000000000000000000d02'', nt_micro_unit = ''5f0000000000000000000c08'',
            nt_content = ''Lost'', nt_word_count = None, nt_image_required = False,
            nt_image_reasons = [], nt_v1_generated = True, nt_v1_verified = False\<rparr>],
        c_micro_unit_mcqs := [orphan_mcq]\<rparr>"

text \<open>
  An id parser for the examples: the text of 24 lower-case hexadecimal digits denotes
  itself, anything else is refused. The theorems below hold for every parser.
\<close>

definition hex_id :: "string \<Rightarrow> oid option" where
  "hex_id s =
     (if length s = 24 \<and> list_all (\<lambda>c. c \<in> set ''0123456789abcdef'') s then Some s else None)"

section \<open>Properties of the queries\<close>

lemma dereference_cases:
  "(\<exists>m. dereference db i = PyMicroUnit m \<and> mu_id m = i \<and> m \<in> set (c_micro_units db)) \<or>
   (dereference db i = PyDBRef i \<and> i \<notin> mu_id ` set (c_micro_units db))"
  by (auto simp: dereference_def find_Some_iff find_None_iff split: option.splits)

text \<open>An id is never found in a set of dereferenced values.\<close>

lemma id_not_in_dereferenced: "\<not> py_in (PyObjectId i) (map (dereference db) rs)"
proof -
  have "\<not> py_eq (dereference db r) (PyObjectId i)" for r
    using dereference_cases [of db r] by auto
  then show ?thesis by (auto simp: py_in_def)
qed

lemma id_not_in_noted: "\<not> py_in (PyObjectId i) (snd (noted_micro_units db ids))"
  by (simp add: noted_micro_units_def Let_def id_not_in_dereferenced)

text \<open>
  Had the set held the stored ids instead, the test with the document would be the one
  that never succeeds: the tests \<^verbatim>\<open>mu.id in noted_units\<close> and \<^verbatim>\<open>u in notes_map\<close> of the
  two views cannot both be right for the same kind of set.
\<close>

lemma document_not_in_ids: "\<not> py_in (PyMicroUnit u) (map PyObjectId ids)"
  by (auto simp: py_in_def)

text \<open>
  A document is found in the set exactly when a note refers to it, provided the filter
  of the query lets its id through.
\<close>

lemma noted_iff:
  assumes "set ids \<subseteq> mu_id ` set (c_micro_units db)" and "mu_id u \<in> set ids"
  shows "py_in (PyMicroUnit u) (snd (noted_micro_units db ids)) \<longleftrightarrow>
         (\<exists>n \<in> set (c_micro_unit_notes db). nt_micro_unit n = mu_id u)"
proof
  assume "py_in (PyMicroUnit u) (snd (noted_micro_units db ids))"
  then obtain n where n: "n \<in> set (c_micro_unit_notes db)" "nt_micro_unit n \<in> set ids"
    and h: "py_hash (dereference db (nt_micro_unit n)) = py_hash (PyMicroUnit u)"
    by (auto simp: noted_micro_units_def py_in_def Let_def)
  from dereference_cases [of db "nt_micro_unit n"] h have "nt_micro_unit n = mu_id u"
    by auto
  with n show "\<exists>n \<in> set (c_micro_unit_notes db). nt_micro_unit n = mu_id u" by blast
next
  assume "\<exists>n \<in> set (c_micro_unit_notes db). nt_micro_unit n = mu_id u"
  then obtain n where n: "n \<in> set (c_micro_unit_notes db)" "nt_micro_unit n = mu_id u" by blast
  from assms have "mu_id u \<in> mu_id ` set (c_micro_units db)" by blast
  with dereference_cases [of db "mu_id u"]
  obtain m where m: "dereference db (mu_id u) = PyMicroUnit m" "mu_id m = mu_id u" by auto
  have "dereference db (mu_id u) \<in> set (snd (noted_micro_units db ids))"
    using n assms(2) by (force simp: noted_micro_units_def Let_def)
  with m show "py_in (PyMicroUnit u) (snd (noted_micro_units db ids))"
    by (auto simp: py_in_def intro!: bexI [of _ "PyMicroUnit m"])
qed

lemma noted_micro_units_queries:
  "filter (on_collection Micro_unit_notes) (fst (noted_micro_units db ids)) =
     [Distinct_in Micro_unit_notes ids]"
  "length (fst (noted_micro_units db ids)) \<le> 2"
  by (simp_all add: noted_micro_units_def Let_def)

subsection \<open>The loop of \<^verbatim>\<open>subtopics_by_subject\<close>\<close>

lemma mark_subtopics_skip:
  "(\<And>i. \<not> py_in (PyObjectId i) noted_units) \<Longrightarrow>
   mark_subtopics db noted_units mus d = ([], Inr d)"
  by (induction mus arbitrary: d) simp_all

text \<open>
  Whatever the set holds, the loop sends no query to the notes, and it ends without an
  exception when the SubTopic of each micro-unit exists.
\<close>

lemma mark_subtopics_queries:
  "filter (on_collection Micro_unit_notes) (fst (mark_subtopics db noted_units mus d)) = []"
  by (induction mus arbitrary: d) (simp_all add: split_beta split: option.splits)

lemma mark_subtopics_resolves:
  "(\<And>mu. mu \<in> set mus \<Longrightarrow> mu_subtopic mu \<in> st_id ` set (c_subtopics db)) \<Longrightarrow>
   \<exists>d'. snd (mark_subtopics db noted_units mus d) = Inr d'"
proof (induction mus arbitrary: d)
  case Nil
  then show ?case by simp
next
  case (Cons mu mus)
  have "mu_subtopic mu \<in> st_id ` set (c_subtopics db)"
    using Cons.prems by simp
  then have "find (\<lambda>s. st_id s = mu_subtopic mu) (c_subtopics db) \<noteq> None"
    by (auto simp: find_None_iff)
  then obtain s where "find (\<lambda>s. st_id s = mu_subtopic mu) (c_subtopics db) = Some s"
    by blast
  moreover have "\<exists>d'. snd (mark_subtopics db noted_units mus d0) = Inr d'" for d0
    using Cons.IH Cons.prems by simp
  ultimately show ?case by (simp add: split_beta)
qed

subsection \<open>The views, unfolded\<close>

text \<open>
  \<^verbatim>\<open>subtopics_by_subject\<close>: the membership test of the loop never succeeds, so the
  dictionary is empty when the rows are built.
\<close>

lemma subtopics_by_subject_eq:
  "subtopics_by_subject db subject =
     ([Find Subtopics, Find Micro_units] @
        fst (noted_micro_units db (map mu_id
          (filter (\<lambda>m. mu_subtopic m \<in>
                     set (map st_id (filter (\<lambda>s. st_subject s = subject) (c_subtopics db))))
             (c_micro_units db)))),
      Inr (JList (map (subtopic_json Map.empty)
                    (filter (\<lambda>s. st_subject s = subject) (c_subtopics db)))))"
  unfolding subtopics_by_subject_def Let_def
  by (simp add: split_beta mark_subtopics_skip [OF id_not_in_noted])

text \<open>\<^verbatim>\<open>get\<close> on a key that is unique in the collection.\<close>

lemma objects_get_Inr: "objects_get xs = Inr x \<longleftrightarrow> xs = [x]"
  by (cases xs rule: objects_get.cases) auto

lemma filter_unique:
  "distinct (map f xs) \<Longrightarrow> x \<in> set xs \<Longrightarrow> filter (\<lambda>y. f y = f x) xs = [x]"
proof (induction xs)
  case Nil
  then show ?case by simp
next
  case (Cons a xs)
  show ?case
  proof (cases "a = x")
    case True
    then have "f x \<notin> f ` set xs" using Cons.prems by simp
    then have "\<forall>y \<in> set xs. f y \<noteq> f x" by (metis imageI)
    then have "filter (\<lambda>y. f y = f x) xs = []" by (simp add: filter_empty_conv)
    with True show ?thesis by simp
  next
    case False
    then have "x \<in> set xs" using Cons.prems by simp
    moreover from this have "f a \<noteq> f x" using Cons.prems by force
    ultimately show ?thesis using Cons by simp
  qed
qed


text \<open>
  \<^verbatim>\<open>micro_units_by_subtopic\<close> when the SubTopic is resolved: the rows are those of the
  finalized micro-units of the SubTopic, sorted, and \<^verbatim>\<open>has_notes\<close> says whether a note
  refers to the unit.
\<close>

lemma micro_units_by_subtopic_found:
  assumes "filter (\<lambda>s. st_name s = nm \<and> st_subject s = subject \<and> st_v4_finalized s)
             (c_subtopics db) = [subtopic]"
  shows "micro_units_by_subtopic db subject nm =
     (Get Subtopics # Find Micro_units #
        fst (noted_micro_units db (map mu_id
          (sort_key mu_order (filter (\<lambda>u. mu_subtopic u = st_id subtopic \<and> mu_v6_finalized u)
             (c_micro_units db))))),
      Inr (JList (map (\<lambda>u. JObj [(''id'', JStr (mu_id u)), (''name'', JStr (mu_name u)),
                                  (''order'', JInt (mu_order u)),
                                  (''has_notes'', JBool (\<exists>n \<in> set (c_micro_unit_notes db).
                                                           nt_micro_unit n = mu_id u))])
             (sort_key mu_order (filter (\<lambda>u. mu_subtopic u = st_id subtopic \<and> mu_v6_finalized u)
                (c_micro_units db))))))"
proof -
  let ?units = "sort_key mu_order
    (filter (\<lambda>u. mu_subtopic u = st_id subtopic \<and> mu_v6_finalized u) (c_micro_units db))"
  have sub: "set (map mu_id ?units) \<subseteq> mu_id ` set (c_micro_units db)" by auto
  have "micro_unit_json (snd (noted_micro_units db (map mu_id ?units))) u =
        JObj [(''id'', JStr (mu_id u)), (''name'', JStr (mu_name u)),
              (''order'', JInt (mu_order u)),
              (''has_notes'', JBool (\<exists>n \<in> set (c_micro_unit_notes db). nt_micro_unit n = mu_id u))]"
    if "u \<in> set ?units" for u
  proof -
    from that have "mu_id u \<in> set (map mu_id ?units)" by (simp del: set_sort)
    from noted_iff [OF sub this] show ?thesis by (simp add: micro_unit_json_def)
  qed
  then have "map (micro_unit_json (snd (noted_micro_units db (map mu_id ?units)))) ?units =
    map (\<lambda>u. JObj [(''id'', JStr (mu_id u)), (''name'', JStr (mu_name u)),
              (''order'', JInt (mu_order u)),
              (''has_notes'', JBool (\<exists>n \<in> set (c_micro_unit_notes db). nt_micro_unit n = mu_id u))])
      ?units"
    by (intro map_cong refl)
  then show ?thesis
    unfolding micro_units_by_subtopic_def assms by (simp add: split_beta Let_def)
qed

lemma micro_units_by_subtopic_not_found:
  assumes "filter (\<lambda>s. st_name s = nm \<and> st_subject s = subject \<and> st_v4_finalized s)
             (c_subtopics db) = []"
  shows "micro_units_by_subtopic db subject nm = ([Get Subtopics], Inl DoesNotExist)"
  unfolding micro_units_by_subtopic_def assms by simp

lemma micro_units_by_subtopic_Inr:
  assumes "snd (micro_units_by_subtopic db subject nm) = Inr j"
  shows "\<exists>subtopic. filter (\<lambda>s. st_name s = nm \<and> st_subject s = subject \<and> st_v4_finalized s)
             (c_subtopics db) = [subtopic]"
proof -
  let ?xs = "filter (\<lambda>s. st_name s = nm \<and> st_subject s = subject \<and> st_v4_finalized s)
    (c_subtopics db)"
  from assms obtain x where "objects_get ?xs = Inr x"
    by (auto simp: micro_units_by_subtopic_def split: sum.splits)
  then show ?thesis by (simp add: objects_get_Inr)
qed




text \<open>
  The queries of \<^verbatim>\<open>micro_units_by_subtopic\<close>: at most four, and only the \<^verbatim>\<open>get\<close> when
  the SubTopic is not resolved.
\<close>

lemma micro_units_by_subtopic_log:
  "length (fst (micro_units_by_subtopic db subject nm)) \<le> 4 \<and>
   (\<forall>e. snd (micro_units_by_subtopic db subject nm) = Inl e \<longrightarrow>
        fst (micro_units_by_subtopic db subject nm) = [Get Subtopics])"
  using noted_micro_units_queries(2)
  by (auto simp: micro_units_by_subtopic_def split_beta Let_def le_Suc_eq split: sum.splits)

section \<open>The claims\<close>

text \<open>
  C1. The claim: the list-subtopics operation marks a SubTopic with \<^verbatim>\<open>has_notes = true\<close>
  exactly when a MicroUnit of that SubTopic has a MicroUnitNote, and with \<open>false\<close> when it
  has no MicroUnit or none with a note.

  The view does not do this. In the example store the SubTopic Ancient India has the
  micro-unit Guptas, and Guptas has a note, yet \<^verbatim>\<open>/subtopics/History\<close> reports
  \<^verbatim>\<open>has_notes\<close> false. The loop tests \<^verbatim>\<open>mu.id in noted_units\<close>, an id against a set of
  dereferenced MicroUnit documents, and a document is never equal to an id
  (\<open>id_not_in_noted\<close>), so the dictionary stays empty for every store
  (\<open>subtopics_by_subject_eq\<close>). The sibling view \<^verbatim>\<open>micro_units_by_subtopic\<close> builds the
  same set and tests \<^verbatim>\<open>u in notes_map\<close>, the document itself, which works.
\<close>

theorem subtopics_has_notes_false_despite_note:
  "snd (subtopics_by_subject history_db ''History'') =
     Inr (JList [JObj [(''name'', JStr ''Ancient India''), (''has_notes'', JBool False)]]) \<and>
   ancient_india \<in> set (c_subtopics history_db) \<and>
   guptas \<in> set (c_micro_units history_db) \<and> mu_subtopic guptas = st_id ancient_india \<and>
   guptas_note \<in> set (c_micro_unit_notes history_db) \<and> nt_micro_unit guptas_note = mu_id guptas"
  by (simp add: subtopics_by_subject_def history_db_def ancient_india_def mauryas_def
      guptas_def guptas_note_def noted_micro_units_def subtopic_json_def py_in_def
      dereference_def)

text \<open>
  C2. The list-micro-units operation fails with the not-found error \<^verbatim>\<open>DoesNotExist\<close>
  when no SubTopic of the given name and subject has \<^verbatim>\<open>v4_finalized\<close> set, that is, when
  the named SubTopic is absent or not finalized; and whenever it returns, its rows are
  those of stored micro-units whose \<^verbatim>\<open>v6_finalized\<close> is set. The list-subtopics operation
  has no such gate: it returns one row for every SubTopic of the subject, in the store's
  order, whatever its stage flags.
\<close>

theorem micro_units_gated_subtopics_not:
  "((\<forall>s \<in> set (c_subtopics db). st_name s = nm \<and> st_subject s = subject \<longrightarrow> \<not> st_v4_finalized s) \<longrightarrow>
      snd (micro_units_by_subtopic db subject nm) = Inl DoesNotExist) \<and>
   (\<forall>j. snd (micro_units_by_subtopic db subject nm) = Inr j \<longrightarrow>
      (\<exists>(units :: MicroUnit list) has.
         j = JList (map (\<lambda>u. JObj [(''id'', JStr (mu_id u)), (''name'', JStr (mu_name u)),
                                    (''order'', JInt (mu_order u)),
                                    (''has_notes'', JBool (has u))]) units) \<and>
         (\<forall>u \<in> set units. u \<in> set (c_micro_units db) \<and> mu_v6_finalized u))) \<and>
   (\<exists>has. snd (subtopics_by_subject db subject) =
      Inr (JList (map (\<lambda>s. JObj [(''name'', JStr (st_name s)), (''has_notes'', JBool (has s))])
                    (filter (\<lambda>s. st_subject s = subject) (c_subtopics db)))))"
proof (intro conjI allI impI)
  assume "\<forall>s \<in> set (c_subtopics db). st_name s = nm \<and> st_subject s = subject \<longrightarrow> \<not> st_v4_finalized s"
  then have "filter (\<lambda>s. st_name s = nm \<and> st_subject s = subject \<and> st_v4_finalized s)
               (c_subtopics db) = []"
    by (auto simp: filter_empty_conv)
  from micro_units_by_subtopic_not_found [OF this]
  show "snd (micro_units_by_subtopic db subject nm) = Inl DoesNotExist" by simp
next
  fix j
  assume r: "snd (micro_units_by_subtopic db subject nm) = Inr j"
  from micro_units_by_subtopic_Inr [OF r] obtain subtopic where st:
    "filter (\<lambda>s. st_name s = nm \<and> st_subject s = subject \<and> st_v4_finalized s)
       (c_subtopics db) = [subtopic]" ..
  let ?units = "sort_key mu_order
    (filter (\<lambda>u. mu_subtopic u = st_id subtopic \<and> mu_v6_finalized u) (c_micro_units db))"
  let ?has = "\<lambda>u. \<exists>n \<in> set (c_micro_unit_notes db). nt_micro_unit n = mu_id u"
  from micro_units_by_subtopic_found [OF st] r
  have a: "j = JList (map (\<lambda>u. JObj [(''id'', JStr (mu_id u)), (''name'', JStr (mu_name u)),
                                      (''order'', JInt (mu_order u)),
                                      (''has_notes'', JBool (?has u))]) ?units)"
    by simp
  have b: "\<forall>u \<in> set ?units. u \<in> set (c_micro_units db) \<and> mu_v6_finalized u"
    by simp
  show "\<exists>(units :: MicroUnit list) has.
         j = JList (map (\<lambda>u. JObj [(''id'', JStr (mu_id u)), (''name'', JStr (mu_name u)),
                                    (''order'', JInt (mu_order u)),
                                    (''has_notes'', JBool (has u))]) units) \<and>
         (\<forall>u \<in> set units. u \<in> set (c_micro_units db) \<and> mu_v6_finalized u)"
    by (rule exI [of _ ?units], rule exI [of _ ?has]) (rule conjI [OF a b])
next
  show "\<exists>has. snd (subtopics_by_subject db subject) =
      Inr (JList (map (\<lambda>s. JObj [(''name'', JStr (st_name s)), (''has_notes'', JBool (has s))])
                    (filter (\<lambda>s. st_subject s = subject) (c_subtopics db))))"
    by (rule exI [of _ "\<lambda>s. False"]) (simp add: subtopics_by_subject_eq subtopic_json_def)
qed

theorem micro_units_gated_subtopics_not_witness:
  "snd (micro_units_by_subtopic draft_db ''History'' ''Ancient India'') = Inl DoesNotExist \<and>
   (\<exists>has. snd (subtopics_by_subject draft_db ''History'') =
      Inr (JList [JObj [(''name'', JStr ''Ancient India''), (''has_notes'', JBool (has (ancient_india\<lparr>st_v4_finalized := False\<rparr>)))]])) \<and>
   (\<exists>(units :: MicroUnit list) has.
      JList [JObj [(''id'', JStr ''5f0000000000000000000c02''), (''name'', JStr ''Guptas''),
                   (''order'', JInt 1), (''has_notes'', JBool True)],
             JObj [(''id'', JStr ''5f0000000000000000000c01''), (''name'', JStr ''Mauryas''),
                   (''order'', JInt 2), (''has_notes'', JBool False)]] =
      JList (map (\<lambda>u. JObj [(''id'', JStr (mu_id u)), (''name'', JStr (mu_name u)),
                             (''order'', JInt (mu_order u)),
                             (''has_notes'', JBool (has u))]) units) \<and>
      (\<forall>u \<in> set units. u \<in> set (c_micro_units history_db) \<and> mu_v6_finalized u))"
proof -
  have h: "\<forall>s \<in> set (c_subtopics draft_db).
      st_name s = ''Ancient India'' \<and> st_subject s = ''History'' \<longrightarrow> \<not> st_v4_finalized s"
    by (simp add: draft_db_def history_db_def)
  have r: "snd (micro_units_by_subtopic history_db ''History'' ''Ancient India'') =
     Inr (JList [JObj [(''id'', JStr ''5f0000000000000000000c02''), (''name'', JStr ''Guptas''),
                       (''order'', JInt 1), (''has_notes'', JBool True)],
                 JObj [(''id'', JStr ''5f0000000000000000000c01''), (''name'', JStr ''Mauryas''),
                       (''order'', JInt 2), (''has_notes'', JBool False)]])"
    by (simp add: micro_units_by_subtopic_def history_db_def ancient_india_def mauryas_def
        guptas_def guptas_note_def noted_micro_units_def micro_unit_json_def py_in_def
        dereference_def)
  have f: "filter (\<lambda>s. st_subject s = ''History'') (c_subtopics draft_db) =
      [ancient_india\<lparr>st_v4_finalized := False\<rparr>]"
    by (simp add: draft_db_def history_db_def ancient_india_def)
  from micro_units_gated_subtopics_not [of draft_db "''Ancient India''" "''History''"] h
  have 1: "snd (micro_units_by_subtopic draft_db ''History'' ''Ancient India'') = Inl DoesNotExist"
    by blast
  from micro_units_gated_subtopics_not [of draft_db "''Ancient India''" "''History''"]
  have 2: "\<exists>has. snd (subtopics_by_subject draft_db ''History'') =
      Inr (JList [JObj [(''name'', JStr ''Ancient India''), (''has_notes'', JBool (has (ancient_india\<lparr>st_v4_finalized := False\<rparr>)))]])"
    unfolding f by (simp add: ancient_india_def)
  from micro_units_gated_subtopics_not [of history_db "''Ancient India''" "''History''"] r
  have 3: "\<exists>(units :: MicroUnit list) has.
      JList [JObj [(''id'', JStr ''5f0000000000000000000c02''), (''name'', JStr ''Guptas''),
                   (''order'', JInt 1), (''has_notes'', JBool True)],
             JObj [(''id'', JStr ''5f0000000000000000000c01''), (''name'', JStr ''Mauryas''),
                   (''order'', JInt 2), (''has_notes'', JBool False)]] =
      JList (map (\<lambda>u. JObj [(''id'', JStr (mu_id u)), (''name'', JStr (mu_name u)),
                             (''order'', JInt (mu_order u)),
                             (''has_notes'', JBool (has u))]) units) \<and>
      (\<forall>u \<in> set units. u \<in> set (c_micro_units history_db) \<and> mu_v6_finalized u)"
    by blast
  from 1 2 3 show ?thesis by blast
qed





text \<open>
  C5. The claim: for every input string that cannot be parsed into an id, the fetch-note
  operation surfaces a client-visible bad-request outcome, never an internal fault.

  It fails at the text \<^verbatim>\<open>not-an-id\<close>: \<^verbatim>\<open>ObjectId(micro_unit_id)\<close> raises \<^verbatim>\<open>InvalidId\<close>,
  nothing in the file catches it, and the status the client receives is 500, not 400.
\<close>

theorem malformed_id_not_bad_request:
  "hex_id ''not-an-id'' = None \<and>
   http_status (snd (notes_by_micro_unit hex_id history_db ''not-an-id'')) \<noteq> 400"
  by (simp add: notes_by_micro_unit_def hex_id_def http_status_def)

text \<open>
  C5, as amended. For every input string that cannot be parsed into an id, the fetch-note
  operation ends with the parser's error \<^verbatim>\<open>InvalidId\<close> before any query is sent to the
  store: not a response, and not the not-found error. The error is not caught or
  translated, so the client is answered with status 500.
\<close>

theorem malformed_id_raises_InvalidId:
  "ObjectId s = None \<Longrightarrow>
   notes_by_micro_unit ObjectId db s = ([], Inl InvalidId) \<and>
   http_status (snd (notes_by_micro_unit ObjectId db s)) = 500"
  by (simp add: notes_by_micro_unit_def http_status_def)

theorem malformed_id_raises_InvalidId_witness:
  "hex_id ''not-an-id'' = None \<and>
   notes_by_micro_unit hex_id history_db ''not-an-id'' = ([], Inl InvalidId) \<and>
   http_status (snd (notes_by_micro_unit hex_id history_db ''not-an-id'')) = 500"
proof -
  have p: "hex_id ''not-an-id'' = None" by (simp add: hex_id_def)
  from malformed_id_raises_InvalidId
    [where ObjectId = hex_id and s = "''not-an-id''" and db = history_db, OF p] p
  show ?thesis by blast
qed

text \<open>
  C6. The list-subjects output is a list of subject strings without duplicates, and a
  string is in it exactly when some UPSCSyllabus document has that subject and
  \<^verbatim>\<open>v4 = True\<close>.
\<close>

theorem list_subjects_distinct_v4:
  "\<exists>subjects. snd (list_subjects db) = Inr (JList (map JStr subjects)) \<and> distinct subjects \<and>
     (\<forall>S. S \<in> set subjects \<longleftrightarrow> (\<exists>d \<in> set (c_upsc_syllabus db). sy_subject d = S \<and> sy_v4 d))"
  unfolding list_subjects_def Let_def
  by (intro exI [of _ "remdups (map sy_subject (filter sy_v4 (c_upsc_syllabus db)))"]) auto

text \<open>
  C7. The claim: the \<^verbatim>\<open>mcq_count\<close> of every fetch-mcqs response equals the length of the
  \<^verbatim>\<open>mcqs\<close> sequence of the same response.

  It fails for a stored document whose \<^verbatim>\<open>mcq_count\<close> is not the number of its questions:
  the view copies the stored number and checks nothing.
\<close>

theorem mcq_count_mismatch_served:
  "snd (mcqs_by_micro_unit hex_id dangling_db ''5f0000000000000000000c09'') =
     Inr (JObj [(''mcq_count'', JInt 2), (''mcqs'', JList [question_json one_question])]) \<and>
   (2 :: int) \<noteq> int (length [question_json one_question])"
  by (simp add: mcqs_by_micro_unit_def hex_id_def dangling_db_def history_db_def orphan_mcq_def)

text \<open>
  C7, as amended. Every fetch-mcqs response is that of one stored MicroUnitMCQ document
  referring to the requested id: its \<^verbatim>\<open>mcq_count\<close> is the stored \<^verbatim>\<open>mcq_count\<close> of that
  document, and its \<^verbatim>\<open>mcqs\<close> sequence has one entry for each stored question, in order.
  So the two agree exactly when the stored document has them agree.
\<close>

theorem mcq_count_echoes_stored:
  assumes "snd (mcqs_by_micro_unit ObjectId db s) = Inr j"
  shows "\<exists>mcq \<in> set (c_micro_unit_mcqs db).
           ObjectId s = Some (mq_micro_unit mcq) \<and>
           j = JObj [(''mcq_count'', JInt (mq_mcq_count mcq)),
                     (''mcqs'', JList (map question_json (mq_mcqs mcq)))] \<and>
           length (map question_json (mq_mcqs mcq)) = length (mq_mcqs mcq)"
proof -
  from assms obtain i where i: "ObjectId s = Some i"
    by (cases "ObjectId s") (auto simp: mcqs_by_micro_unit_def)
  with assms obtain mcq where g:
    "objects_get (filter (\<lambda>m. mq_micro_unit m = i) (c_micro_unit_mcqs db)) = Inr mcq"
    by (auto simp: mcqs_by_micro_unit_def split: sum.splits)
  then have f: "filter (\<lambda>m. mq_micro_unit m = i) (c_micro_unit_mcqs db) = [mcq]"
    by (simp add: objects_get_Inr)
  then have "mcq \<in> set (filter (\<lambda>m. mq_micro_unit m = i) (c_micro_unit_mcqs db))" by simp
  then have m: "mcq \<in> set (c_micro_unit_mcqs db)" "mq_micro_unit mcq = i" by simp_all
  from assms i f have "j = JObj [(''mcq_count'', JInt (mq_mcq_count mcq)),
                     (''mcqs'', JList (map question_json (mq_mcqs mcq)))]"
    by (simp add: mcqs_by_micro_unit_def)
  with m i show ?thesis by auto
qed

theorem mcq_count_echoes_stored_witness:
  "\<exists>mcq \<in> set (c_micro_unit_mcqs dangling_db).
     hex_id ''5f0000000000000000000c09'' = Some (mq_micro_unit mcq) \<and>
     JObj [(''mcq_count'', JInt 2), (''mcqs'', JList [question_json one_question])] =
       JObj [(''mcq_count'', JInt (mq_mcq_count mcq)),
             (''mcqs'', JList (map question_json (mq_mcqs mcq)))] \<and>
     length (map question_json (mq_mcqs mcq)) = length (mq_mcqs mcq)"
proof -
  have "snd (mcqs_by_micro_unit hex_id dangling_db ''5f0000000000000000000c09'') =
     Inr (JObj [(''mcq_count'', JInt 2), (''mcqs'', JList [question_json one_question])])"
    by (simp add: mcqs_by_micro_unit_def hex_id_def dangling_db_def history_db_def orphan_mcq_def)
  from mcq_count_echoes_stored [OF this] show ?thesis .
qed



text \<open>
  C9. The list-subtopics operation sends exactly one query to the notes: the
  \<^verbatim>\<open>distinct\<close> with the membership filter over the ids of all micro-units of the subject's
  SubTopics. The list-micro-units operation, when it resolves the SubTopic, sends exactly
  one query to the notes: the \<^verbatim>\<open>distinct\<close> with the membership filter over the ids of
  all the units it lists; when it does not, it sends none. Neither operation sends more
  than four queries in all, however many micro-units there are.
\<close>

theorem notes_existence_one_membership_query:
  "filter (on_collection Micro_unit_notes) (fst (subtopics_by_subject db subject)) =
     [Distinct_in Micro_unit_notes
        (map mu_id (filter (\<lambda>m. mu_subtopic m \<in>
             set (map st_id (filter (\<lambda>s. st_subject s = subject) (c_subtopics db))))
           (c_micro_units db)))] \<and>
   length (fst (subtopics_by_subject db subject)) \<le> 4 \<and>
   length (fst (micro_units_by_subtopic db subject nm)) \<le> 4 \<and>
   (\<forall>e. snd (micro_units_by_subtopic db subject nm) = Inl e \<longrightarrow>
      filter (on_collection Micro_unit_notes) (fst (micro_units_by_subtopic db subject nm)) = []) \<and>
   (\<forall>j. snd (micro_units_by_subtopic db subject nm) = Inr j \<longrightarrow>
      (\<exists>(units :: MicroUnit list) has.
         j = JList (map (\<lambda>u. JObj [(''id'', JStr (mu_id u)), (''name'', JStr (mu_name u)),
                                    (''order'', JInt (mu_order u)),
                                    (''has_notes'', JBool (has u))]) units) \<and>
         filter (on_collection Micro_unit_notes) (fst (micro_units_by_subtopic db subject nm)) =
           [Distinct_in Micro_unit_notes (map mu_id units)]))"
proof (intro conjI allI impI)
  show "filter (on_collection Micro_unit_notes) (fst (subtopics_by_subject db subject)) =
     [Distinct_in Micro_unit_notes
        (map mu_id (filter (\<lambda>m. mu_subtopic m \<in>
             set (map st_id (filter (\<lambda>s. st_subject s = subject) (c_subtopics db))))
           (c_micro_units db)))]"
    by (simp add: subtopics_by_subject_eq noted_micro_units_queries(1))
  show "length (fst (subtopics_by_subject db subject)) \<le> 4"
    using noted_micro_units_queries(2) by (simp add: subtopics_by_subject_eq)
  show "length (fst (micro_units_by_subtopic db subject nm)) \<le> 4"
    using micro_units_by_subtopic_log by blast
next
  fix e
  assume "snd (micro_units_by_subtopic db subject nm) = Inl e"
  with micro_units_by_subtopic_log [of db subject nm]
  have "fst (micro_units_by_subtopic db subject nm) = [Get Subtopics]" by blast
  then show "filter (on_collection Micro_unit_notes) (fst (micro_units_by_subtopic db subject nm)) = []"
    by simp
next
  fix j
  assume r: "snd (micro_units_by_subtopic db subject nm) = Inr j"
  from micro_units_by_subtopic_Inr [OF r] obtain subtopic where st:
    "filter (\<lambda>s. st_name s = nm \<and> st_subject s = subject \<and> st_v4_finalized s)
       (c_subtopics db) = [subtopic]" ..
  let ?units = "sort_key mu_order
    (filter (\<lambda>u. mu_subtopic u = st_id subtopic \<and> mu_v6_finalized u) (c_micro_units db))"
  let ?has = "\<lambda>u. \<exists>n \<in> set (c_micro_unit_notes db). nt_micro_unit n = mu_id u"
  from micro_units_by_subtopic_found [OF st] r
  have a: "j = JList (map (\<lambda>u. JObj [(''id'', JStr (mu_id u)), (''name'', JStr (mu_name u)),
                                      (''order'', JInt (mu_order u)),
                                      (''has_notes'', JBool (?has u))]) ?units)"
    by simp
  have b: "filter (on_collection Micro_unit_notes) (fst (micro_units_by_subtopic db subject nm)) =
           [Distinct_in Micro_unit_notes (map mu_id ?units)]"
    by (simp add: micro_units_by_subtopic_found [OF st] noted_micro_units_queries(1))
  show "\<exists>(units :: MicroUnit list) has.
         j = JList (map (\<lambda>u. JObj [(''id'', JStr (mu_id u)), (''name'', JStr (mu_name u)),
                                    (''order'', JInt (mu_order u)),
                                    (''has_notes'', JBool (has u))]) units) \<and>
         filter (on_collection Micro_unit_notes) (fst (micro_units_by_subtopic db subject nm)) =
           [Distinct_in Micro_unit_notes (map mu_id units)]"
    by (rule exI [of _ ?units], rule exI [of _ ?has]) (rule conjI [OF a b])
qed

theorem notes_existence_one_membership_query_witness:
  "fst (subtopics_by_subject history_db ''History'') =
     [Find Subtopics, Find Micro_units,
      Distinct_in Micro_unit_notes [''5f0000000000000000000c01'', ''5f0000000000000000000c02''],
      In_bulk Micro_units [''5f0000000000000000000c02'']] \<and>
   fst (micro_units_by_subtopic history_db ''History'' ''Ancient India'') =
     [Get Subtopics, Find Micro_units,
      Distinct_in Micro_unit_notes [''5f0000000000000000000c02'', ''5f0000000000000000000c01''],
      In_bulk Micro_units [''5f0000000000000000000c02'']] \<and>
   filter (on_collection Micro_unit_notes) (fst (micro_units_by_subtopic draft_db ''History'' ''Ancient India'')) = []"
proof -
  have 1: "fst (subtopics_by_subject history_db ''History'') =
     [Find Subtopics, Find Micro_units,
      Distinct_in Micro_unit_notes [''5f0000000000000000000c01'', ''5f0000000000000000000c02''],
      In_bulk Micro_units [''5f0000000000000000000c02'']]"
    by (simp add: subtopics_by_subject_def history_db_def ancient_india_def mauryas_def
        guptas_def guptas_note_def noted_micro_units_def py_in_def dereference_def)
  have 2: "fst (micro_units_by_subtopic history_db ''History'' ''Ancient India'') =
     [Get Subtopics, Find Micro_units,
      Distinct_in Micro_unit_notes [''5f0000000000000000000c02'', ''5f0000000000000000000c01''],
      In_bulk Micro_units [''5f0000000000000000000c02'']]"
    by (simp add: micro_units_by_subtopic_def history_db_def ancient_india_def mauryas_def
        guptas_def guptas_note_def noted_micro_units_def)
  have 3: "snd (micro_units_by_subtopic draft_db ''History'' ''Ancient India'') = Inl DoesNotExist"
    by (simp add: micro_units_by_subtopic_def draft_db_def history_db_def ancient_india_def)
  from notes_existence_one_membership_query [of draft_db "''History''" "''Ancient India''"] 3
  have "filter (on_collection Micro_unit_notes)
          (fst (micro_units_by_subtopic draft_db ''History'' ''Ancient India'')) = []"
    by blast
  with 1 2 show ?thesis by blast
qed

text \<open>
  C10. The fetch-mcqs operation looks up the MicroUnitMCQ document by the id alone: when
  a document of the collection refers to the id (one at most, by the unique index), the
  operation returns its response after a single \<^verbatim>\<open>get\<close> on the question sets, and the
  response is the same when the store holds no micro-unit at all. In the example no
  micro-unit has the id.
\<close>

theorem mcqs_served_without_micro_unit:
  assumes "ObjectId s = Some i"
    and "distinct (map mq_micro_unit (c_micro_unit_mcqs db))"
    and "mcq \<in> set (c_micro_unit_mcqs db)" and "mq_micro_unit mcq = i"
  shows "mcqs_by_micro_unit ObjectId db s =
           ([Get Micro_unit_mcqs],
            Inr (JObj [(''mcq_count'', JInt (mq_mcq_count mcq)),
                       (''mcqs'', JList (map question_json (mq_mcqs mcq)))])) \<and>
         mcqs_by_micro_unit ObjectId (db\<lparr>c_micro_units := []\<rparr>) s =
           mcqs_by_micro_unit ObjectId db s"
proof -
  from filter_unique [OF assms(2,3)] assms(4)
  have "filter (\<lambda>m. mq_micro_unit m = i) (c_micro_unit_mcqs db) = [mcq]" by simp
  then show ?thesis by (simp add: mcqs_by_micro_unit_def assms(1))
qed

theorem mcqs_served_without_micro_unit_witness:
  "mcqs_by_micro_unit hex_id dangling_db ''5f0000000000000000000c09'' =
     ([Get Micro_unit_mcqs],
      Inr (JObj [(''mcq_count'', JInt (mq_mcq_count orphan_mcq)),
                 (''mcqs'', JList (map question_json (mq_mcqs orphan_mcq)))])) \<and>
   mq_micro_unit orphan_mcq = ''5f0000000000000000000c09'' \<and>
   ''5f0000000000000000000c09'' \<notin> set (map mu_id (c_micro_units dangling_db))"
proof -
  have p: "hex_id ''5f0000000000000000000c09'' = Some ''5f0000000000000000000c09''"
    by (simp add: hex_id_def)
  have d: "distinct (map mq_micro_unit (c_micro_unit_mcqs dangling_db))"
    by (simp add: dangling_db_def)
  have m: "orphan_mcq \<in> set (c_micro_unit_mcqs dangling_db)"
    by (simp add: dangling_db_def)
  have r: "mq_micro_unit orphan_mcq = ''5f0000000000000000000c09''"
    by (simp add: orphan_mcq_def)
  have n: "''5f0000000000000000000c09'' \<notin> set (map mu_id (c_micro_units dangling_db))"
    by (simp add: dangling_db_def mauryas_def guptas_def)
  from mcqs_served_without_micro_unit
    [where ObjectId = hex_id and s = "''5f0000000000000000000c09''", OF p d m r] r n
  show ?thesis by simp
qed

end
